theory Spec2Isabelle
  imports Complex_Main "HOL-Library.Word" "HOL-Library.AList"
begin

section \<open>Conventions of the embedding\<close>

text \<open>
  The Go sources compute on \<open>float64\<close>. A \<open>float64\<close> value is modelled by the real
  number it denotes: comparisons and equality are exact, the rounding of \<open>*\<close>, \<open>/\<close>,
  \<open>+\<close> and \<open>-\<close> is not modelled, and neither are NaN and the infinities (Go's
  \<open>x / 0\<close> is an infinity, HOL's is \<open>0\<close>; this only concerns the inverted side of
  the level provider when a price is zero).  Every concrete evaluation below uses
  the non-inverted side, where the level loop does not divide.

  Go errors are values of the datatype \<open>error\<close>; a function that returns
  \<open>(x, error)\<close> returns \<open>error + 'a\<close>, with \<open>Inl\<close> the error.  A nil slice and an
  empty slice are both the empty list.
\<close>

type_synonym float64 = real

datatype error =
    FetcherError string
  | TimestampNotAnInteger string
  | ErrorInGetTradeHistory error
  | ErrorInFetchLatestTradePrice error
  | CouldNotApplyMakerModeFilter error
  | CouldNotApplyTakerModeFilter error


section \<open>Submission mode (trader/submitMode.go)\<close>

datatype SubmitMode = SubmitModeMakerOnly | SubmitModeTakerOnly | SubmitModeBoth

definition ParseSubmitMode :: "string \<Rightarrow> SubmitMode" where
  "ParseSubmitMode submitMode =
     (if submitMode = ''maker_only'' then SubmitModeMakerOnly
      else if submitMode = ''taker_only'' then SubmitModeTakerOnly
      else SubmitModeBoth)"

record TradingPair =
  Base :: string
  Quote :: string

text \<open>
  \<open>sdexFilter\<close>: the struct behind the \<open>submitFilter\<close> interface.  The SDEX handle
  is never used by the code under study and is kept as a type parameter.
\<close>

record 'sdex sdexFilter =
  tradingPair :: TradingPair
  sdex :: 'sdex
  submitMode :: SubmitMode

text \<open>\<open>makeSubmitFilter\<close>: \<open>None\<close> is the nil interface value.\<close>

definition makeSubmitFilter ::
    "SubmitMode \<Rightarrow> 'sdex \<Rightarrow> TradingPair \<Rightarrow> 'sdex sdexFilter option" where
  "makeSubmitFilter mode sd pair =
     (if mode = SubmitModeMakerOnly \<or> mode = SubmitModeTakerOnly
      then Some \<lparr>tradingPair = pair, sdex = sd, submitMode = mode\<rparr>
      else None)"

text \<open>
  \<open>model.OrderBook\<close> is declared outside the sources at hand; \<open>apply\<close> only builds
  its zero value (the fetch of the real book is commented out), so the book is a
  pair of empty sides.
\<close>

record OrderBook =
  asks :: "(float64 \<times> float64) list"
  bids :: "(float64 \<times> float64) list"

definition emptyOrderBook :: OrderBook where
  "emptyOrderBook = \<lparr>asks = [], bids = []\<rparr>"

text \<open>Both filter bodies are \<open>return nil, nil\<close>.\<close>

definition filterMakerMode :: "'op list \<Rightarrow> OrderBook \<Rightarrow> error + 'op list" where
  "filterMakerMode ops ob = Inr []"

definition filterTakerMode :: "'op list \<Rightarrow> OrderBook \<Rightarrow> error + 'op list" where
  "filterTakerMode ops ob = Inr []"

text \<open>\<open>(f *sdexFilter) apply\<close>.\<close>

definition sdexFilter_apply :: "'sdex sdexFilter \<Rightarrow> 'op list \<Rightarrow> error + 'op list" where
  "sdexFilter_apply f ops =
     (let ob = emptyOrderBook in
      if submitMode f = SubmitModeMakerOnly then
        (case filterMakerMode ops ob of
           Inl e \<Rightarrow> Inl (CouldNotApplyMakerModeFilter e)
         | Inr ops' \<Rightarrow> Inr ops')
      else
        (case filterTakerMode ops ob of
           Inl e \<Rightarrow> Inl (CouldNotApplyTakerModeFilter e)
         | Inr ops' \<Rightarrow> Inr ops'))"

text \<open>
  A sell offer as the test suite builds it (\<open>makeManageSellOffer(price, amount)\<close>):
  a price and an amount of the base asset.
\<close>

record ManageSellOffer =
  offerPrice :: float64
  offerAmount :: float64

text \<open>
  The crossing test in the words of the specification, for a sell offer: it crosses
  when it is priced at or below the best bid.  A book without bids has nothing to
  cross.
\<close>

definition sellCrossesBook :: "OrderBook \<Rightarrow> ManageSellOffer \<Rightarrow> bool" where
  "sellCrossesBook ob op =
     (case bids ob of [] \<Rightarrow> False | (bestBid, _) # _ \<Rightarrow> offerPrice op \<le> bestBid)"


section \<open>Swing level provider (plugins, swingLevelProvider)\<close>

subsection \<open>Data\<close>

text \<open>
  \<open>price2LastPrice\<close> is a Go map from \<open>float64\<close> to \<open>float64\<close>, global to both
  provider instances.  It is an association list with one entry per key; the order
  of the list stands for the order in which \<open>range\<close> happens to visit the entries
  (Go leaves that order open, so every list with the same entries is a possible
  visit order).  \<open>m[k] = v\<close> is \<open>AList.update k v m\<close>.
\<close>

type_synonym PriceMap = "(float64 \<times> float64) list"

record Level =
  levelPrice :: float64
  levelAmount :: float64

datatype OrderAction = OrderActionBuy | OrderActionSell

text \<open>
  The fields of \<open>model.Trade\<close> that \<open>fetchLatestTradePrice\<close> reads.
  \<open>orderTimestamp\<close> is the text \<open>lastTrade.Order.Timestamp.String()\<close> yields and
  \<open>transactionID\<close> the text of \<open>lastTrade.TransactionID.String()\<close>.
\<close>

record Trade =
  orderAction :: OrderAction
  orderPrice :: float64
  orderTimestamp :: string
  transactionID :: string

text \<open>
  \<open>api.TradeFetcher\<close>: \<open>GetTradeHistory(pair, cursor, nil)\<close> talks to the exchange.
  The exchange is a state \<open>'w\<close> that each call may change; the answer is an error
  or the page of trades.
\<close>

type_synonym 'w TradeFetcher =
  "'w \<Rightarrow> TradingPair \<Rightarrow> string \<Rightarrow> (error + Trade list) \<times> 'w"

text \<open>One call of \<open>GetTradeHistory\<close>: the cursor asked for and the answer.\<close>

type_synonym FetchCall = "string \<times> (error + Trade list)"

record swingLevelProvider =
  spread :: float64
  offsetSpread :: float64
  amountBase :: float64
  useMaxQuoteInTargetAmountCalc :: bool
  maxLevels :: "16 word"
  lastTradePrice :: float64
  priceLimit :: float64
  minBase :: float64
  swingTradingPair :: TradingPair
  lastTradeCursor :: string
  isFirstTradeHistoryRun :: bool

subsection \<open>Cursor arithmetic of the CCXT branch\<close>

text \<open>
  \<open>strconv.Atoi\<close>: an optional sign, then one or more decimal digits, the value
  within the range of a 64-bit \<open>int\<close>; anything else is an error.
\<close>

definition digitValue :: "char \<Rightarrow> nat option" where
  "digitValue c =
     (if (48::nat) \<le> of_char c \<and> of_char c \<le> (57::nat) then Some (of_char c - 48) else None)"

fun parseDigits :: "nat \<Rightarrow> string \<Rightarrow> nat option" where
  "parseDigits n [] = Some n"
| "parseDigits n (c # cs) =
     (case digitValue c of None \<Rightarrow> None | Some d \<Rightarrow> parseDigits (n * 10 + d) cs)"

definition Atoi :: "string \<Rightarrow> int option" where
  "Atoi s =
     (case s of
        [] \<Rightarrow> None
      | c # cs \<Rightarrow>
          (let neg = (c = CHR ''-'');
               ds = (if c = CHR ''-'' \<or> c = CHR ''+'' then cs else s)
           in if ds = [] then None
              else (case parseDigits 0 ds of
                      None \<Rightarrow> None
                    | Some n \<Rightarrow>
                        (let v = (if neg then - int n else int n)
                         in if - (2 ^ 63) \<le> v \<and> v < 2 ^ 63 then Some v else None))))"

text \<open>\<open>strconv.FormatInt(i, 10)\<close>.\<close>

fun natDigits :: "nat \<Rightarrow> string" where
  "natDigits n =
     (if n < 10 then [char_of (48 + n)]
      else natDigits (n div 10) @ [char_of (48 + n mod 10)])"

declare natDigits.simps [simp del]

definition FormatInt :: "int \<Rightarrow> string" where
  "FormatInt i = (if i < 0 then CHR ''-'' # natDigits (nat (- i)) else natDigits (nat i))"

text \<open>
  The cursor after a page whose last trade is \<open>t\<close>.  With the CCXT hack the
  timestamp is parsed, widened to \<open>int64\<close> and incremented (wrapping as \<open>int64\<close>
  does); otherwise the transaction id is taken as it is.
\<close>

definition nextCursor :: "bool \<Rightarrow> Trade \<Rightarrow> error + string" where
  "nextCursor isCcxtTradeHistoryHack t =
     (if isCcxtTradeHistoryHack then
        (case Atoi (orderTimestamp t) of
           None \<Rightarrow> Inl (TimestampNotAnInteger (orderTimestamp t))
         | Some i64Cursor \<Rightarrow> Inr (FormatInt (sint (word_of_int i64Cursor + 1 :: 64 word))))
      else Inr (transactionID t))"

subsection \<open>\<open>fetchLatestTradePrice\<close>\<close>

text \<open>
  The \<open>for\<close> loop has no bound of its own: it ends when a page is empty or a call
  fails.  The model counts the pages it may still ask for.  It returns what the
  function returns, or \<open>None\<close> when the count ran out with the loop still under
  way, and in every case the state of the exchange and the calls made, oldest
  first.
\<close>

fun fetchLoop ::
    "nat \<Rightarrow> bool \<Rightarrow> 'w TradeFetcher \<Rightarrow> TradingPair \<Rightarrow> 'w \<Rightarrow> float64 \<Rightarrow> string \<Rightarrow> bool
      \<Rightarrow> (error + float64 \<times> string \<times> bool) option \<times> 'w \<times> FetchCall list" where
  "fetchLoop 0 hack fetcher pair w lastPrice lastCursor lastIsBuy = (None, w, [])"
| "fetchLoop (Suc fuel) hack fetcher pair w lastPrice lastCursor lastIsBuy =
     (case fetcher w pair lastCursor of
        (Inl e, w') \<Rightarrow> (Some (Inl (ErrorInGetTradeHistory e)), w', [(lastCursor, Inl e)])
      | (Inr trades, w') \<Rightarrow>
          if trades = [] then
            (Some (Inr (lastPrice, lastCursor, lastIsBuy)), w', [(lastCursor, Inr trades)])
          else
            (let lastTrade = last trades in
             case nextCursor hack lastTrade of
               Inl e \<Rightarrow> (Some (Inl e), w', [(lastCursor, Inr trades)])
             | Inr c \<Rightarrow>
                 (case fetchLoop fuel hack fetcher pair w' (orderPrice lastTrade) c
                         (orderAction lastTrade = OrderActionBuy) of
                    (r, w'', calls) \<Rightarrow> (r, w'', (lastCursor, Inr trades) # calls))))"

definition fetchLatestTradePrice ::
    "nat \<Rightarrow> bool \<Rightarrow> 'w TradeFetcher \<Rightarrow> swingLevelProvider \<Rightarrow> 'w
      \<Rightarrow> (error + float64 \<times> string \<times> bool) option \<times> 'w \<times> FetchCall list" where
  "fetchLatestTradePrice fuel hack fetcher p w =
     fetchLoop fuel hack fetcher (swingTradingPair p) w (lastTradePrice p) (lastTradeCursor p) False"

subsection \<open>\<open>getLastPriceFromMap\<close>\<close>

text \<open>
  One round of the \<open>range\<close> loop; the state is \<open>(closestOfferPrice, lp)\<close>.
\<close>

definition closestStep ::
    "float64 \<Rightarrow> bool \<Rightarrow> float64 \<times> float64 \<Rightarrow> float64 \<times> float64 \<Rightarrow> float64 \<times> float64" where
  "closestStep tradePrice lastTradeIsBuy entry st =
     (let offerPrice = fst entry; offerLastPrice = snd entry;
          closestOfferPrice = fst st;
          firstIter = (closestOfferPrice = - 1);
          buyTrigger = (lastTradeIsBuy \<and> offerPrice > tradePrice \<and> offerPrice < closestOfferPrice);
          sellTrigger = (\<not> lastTradeIsBuy \<and> offerPrice < tradePrice \<and> offerPrice > closestOfferPrice)
      in if firstIter \<or> buyTrigger \<or> sellTrigger then (offerPrice, offerLastPrice) else st)"

text \<open>
  \<open>mapKey.AsFloat()\<close> is passed as \<open>tradePrice\<close>.  The sentinel is \<open>-1\<close>.
\<close>

definition getLastPriceFromMap :: "PriceMap \<Rightarrow> float64 \<Rightarrow> bool \<Rightarrow> float64" where
  "getLastPriceFromMap price2LastPrice tradePrice lastTradeIsBuy =
     (case map_of price2LastPrice tradePrice of
        Some lp \<Rightarrow> lp
      | None \<Rightarrow> snd (fold (closestStep tradePrice lastTradeIsBuy) price2LastPrice (- 1, - 1)))"

subsection \<open>\<open>GetLevels\<close>\<close>

text \<open>
  \<open>model.NumberFromFloat(x, utils.SdexPrecision).AsFloat()\<close> is not among the
  sources at hand; it enters as the parameter \<open>q\<close>, the quantisation of a price or
  an amount.  A \<open>Level\<close> holds the quantised numbers.

  The level loop, \<open>k\<close> rounds to go.  A \<open>break\<close> returns what has been collected.
\<close>

fun levelLoop ::
    "(float64 \<Rightarrow> float64) \<Rightarrow> swingLevelProvider \<Rightarrow> float64 \<Rightarrow> nat \<Rightarrow> float64 \<Rightarrow> float64
      \<Rightarrow> Level list \<Rightarrow> PriceMap \<Rightarrow> Level list \<times> PriceMap" where
  "levelLoop q p maxAssetBase 0 newPrice0 baseExposed levels m = (levels, m)"
| "levelLoop q p maxAssetBase (Suc k) newPrice0 baseExposed levels m =
     (let newPrice = newPrice0 * (1 + spread p / 2);
          priceToUse = newPrice * (1 + offsetSpread p / 2);
          expectedBaseUsage =
            (if useMaxQuoteInTargetAmountCalc p then amountBase p / priceToUse else amountBase p);
          expectedEndingBase = maxAssetBase - baseExposed - expectedBaseUsage
      in if expectedEndingBase \<le> minBase p then (levels, m)
         else if useMaxQuoteInTargetAmountCalc p \<and> 1 / priceToUse < priceLimit p then (levels, m)
         else if \<not> useMaxQuoteInTargetAmountCalc p \<and> priceToUse > priceLimit p then (levels, m)
         else
           (let mapKey = (if useMaxQuoteInTargetAmountCalc p then q (1 / priceToUse) else q priceToUse);
                mapValue = (if useMaxQuoteInTargetAmountCalc p then 1 / newPrice else newPrice)
            in levelLoop q p maxAssetBase k newPrice (baseExposed + expectedBaseUsage)
                 (levels @ [\<lparr>levelPrice = q priceToUse, levelAmount = q (amountBase p)\<rparr>])
                 (AList.update mapKey mapValue m)))"

text \<open>
  The update of the provider after a successful \<open>fetchLatestTradePrice\<close>.
\<close>

definition reconcile ::
    "(float64 \<Rightarrow> float64) \<Rightarrow> swingLevelProvider \<Rightarrow> PriceMap \<Rightarrow> float64 \<Rightarrow> string \<Rightarrow> bool
      \<Rightarrow> swingLevelProvider" where
  "reconcile q p m lastPrice lastCursor lastIsBuy =
     (if isFirstTradeHistoryRun p then
        p\<lparr>isFirstTradeHistoryRun := False, lastTradeCursor := lastCursor\<rparr>
      else if lastCursor = lastTradeCursor p then p
      else p\<lparr>lastTradeCursor := lastCursor,
             lastTradePrice := getLastPriceFromMap m (q lastPrice) lastIsBuy\<rparr>)"

text \<open>
  \<open>GetLevels\<close>.  The arguments before \<open>maxAssetBase\<close> are what the method reads
  besides its parameters: the quantisation, the global \<open>IsCcxtTradeHistoryHack\<close>,
  the trade fetcher, the bound on pages, the receiver \<open>p\<close>, the global map and the
  exchange.  The result is the returned value (\<open>None\<close> when the bound on pages was
  reached with the fetch loop still under way), the receiver and the map as the
  call leaves them, the exchange, and the fetches made.
\<close>

definition GetLevels ::
    "(float64 \<Rightarrow> float64) \<Rightarrow> bool \<Rightarrow> 'w TradeFetcher \<Rightarrow> nat \<Rightarrow> swingLevelProvider \<Rightarrow> PriceMap \<Rightarrow> 'w
      \<Rightarrow> float64 \<Rightarrow> float64
      \<Rightarrow> (error + Level list) option \<times> swingLevelProvider \<times> PriceMap \<times> 'w \<times> FetchCall list" where
  "GetLevels q hack fetcher fuel p m w maxAssetBase maxAssetQuote =
     (if maxAssetBase \<le> minBase p then (Some (Inr []), p, m, w, [])
      else
        (case fetchLatestTradePrice fuel hack fetcher p w of
           (None, w', calls) \<Rightarrow> (None, p, m, w', calls)
         | (Some (Inl e), w', calls) \<Rightarrow>
             (Some (Inl (ErrorInFetchLatestTradePrice e)), p, m, w', calls)
         | (Some (Inr (lastPrice, lastCursor, lastIsBuy)), w', calls) \<Rightarrow>
             (let p' = reconcile q p m lastPrice lastCursor lastIsBuy;
                  newPrice = (if useMaxQuoteInTargetAmountCalc p' then 1 / lastTradePrice p'
                              else lastTradePrice p');
                  (levels, m') = levelLoop q p' maxAssetBase (nat (sint (maxLevels p'))) newPrice 0 [] m
              in (Some (Inr levels), p', m', w', calls))))"







text \<open>
  Modelled from the spec: the quantisation of a price (section 4.1, "quantize the
  last observed trade price"), which stands for \<open>model.NumberFromFloat\<close>, missing
  from the sources.  The specification fixes neither the precision nor the
  rounding; this is the rounding to \<open>precision\<close> decimal places, halves away from
  zero.  The theorems about \<open>GetLevels\<close> hold for every \<open>q\<close>; \<open>toFixed\<close> only
  instantiates them at sample inputs.
\<close>

definition toFixed :: "nat \<Rightarrow> float64 \<Rightarrow> float64" where
  "toFixed precision num =
     (let y = num * 10 ^ precision + (if num < 0 then - (1 / 2) else 1 / 2)
      in of_int (if 0 \<le> y then \<lfloor>y\<rfloor> else \<lceil>y\<rceil>) / 10 ^ precision)"


section \<open>Volume admission filter\<close>

text \<open>
  The test suite \<open>TestVolumeFilterFn\<close> calls \<open>volumeFilterFn\<close>, whose body is not
  among the sources at hand.  Amounts, prices and volumes are the decimals of the
  specification, modelled as reals.
\<close>

type_synonym decimal = real

text \<open>
  Modelled from the spec: the \<open>VolumeAccumulator\<close> of section 3, a base volume and
  a quote volume (the test suite passes both accumulators, \<open>dailyOTB\<close> and
  \<open>dailyTBB\<close>, as a pair of numbers each).
\<close>

record VolumeAccumulator =
  baseVolume :: decimal
  quoteVolume :: decimal

text \<open>
  \<open>limitParameters\<close> as the test suite fills it: the two optional caps.  Its
  \<open>mode\<close> field selects which markets and accounts the daily volumes are summed
  over, not the arithmetic of the filter, and is left out.
\<close>

record limitParameters =
  sellBaseAssetCapInBaseUnits :: "decimal option"
  sellBaseAssetCapInQuoteUnits :: "decimal option"

text \<open>
  Modelled from the spec: the rounding of a reduced amount (section 4.2, step 4:
  "decimal precision fixed at the exchange's minimum tick, rounded down").  The
  tick is \<open>10\<close> to the power \<open>- precision\<close>.
\<close>

definition roundDownToTick :: "nat \<Rightarrow> decimal \<Rightarrow> decimal" where
  "roundDownToTick precision x = of_int \<lfloor>x * 10 ^ precision\<rfloor> / 10 ^ precision"

text \<open>
  Modelled from the spec: \<open>availableBase\<close> (section 4.2, step 1); \<open>None\<close> is
  "unconstrained".
\<close>

definition availableBase :: "limitParameters \<Rightarrow> VolumeAccumulator \<Rightarrow> VolumeAccumulator \<Rightarrow> decimal option" where
  "availableBase lp otb tbb =
     map_option (\<lambda>cap. cap - (baseVolume otb + baseVolume tbb)) (sellBaseAssetCapInBaseUnits lp)"

text \<open>
  Modelled from the spec: \<open>availableQuote\<close>, "symmetrically from the quote cap"
  (section 4.2, step 1).
\<close>

definition availableQuote :: "limitParameters \<Rightarrow> VolumeAccumulator \<Rightarrow> VolumeAccumulator \<Rightarrow> decimal option" where
  "availableQuote lp otb tbb =
     map_option (\<lambda>cap. cap - (quoteVolume otb + quoteVolume tbb)) (sellBaseAssetCapInQuoteUnits lp)"

text \<open>The minimum with a bound that may be absent.\<close>

definition minWith :: "decimal \<Rightarrow> decimal option \<Rightarrow> decimal" where
  "minWith x bound = (case bound of None \<Rightarrow> x | Some b \<Rightarrow> min x b)"

text \<open>
  Modelled from the spec: the admissible amount (section 4.2, step 2), the
  minimum of the requested amount, \<open>availableBase\<close> and \<open>availableQuote\<close> converted
  to base units by the operation's price.
\<close>

definition admissibleAmount ::
    "limitParameters \<Rightarrow> VolumeAccumulator \<Rightarrow> VolumeAccumulator \<Rightarrow> ManageSellOffer \<Rightarrow> decimal" where
  "admissibleAmount lp otb tbb op =
     minWith (minWith (offerAmount op) (availableBase lp otb tbb))
       (map_option (\<lambda>a. a / offerPrice op) (availableQuote lp otb tbb))"

text \<open>
  Modelled from the spec: the amount an admitted operation is left with (section
  4.2, step 4).  When less than the operation asks for is admissible, the amount
  is reduced to the admissible amount, rounded down to the tick.
\<close>

definition admittedAmount ::
    "nat \<Rightarrow> limitParameters \<Rightarrow> VolumeAccumulator \<Rightarrow> VolumeAccumulator \<Rightarrow> ManageSellOffer \<Rightarrow> decimal" where
  "admittedAmount precision lp otb tbb op =
     (if admissibleAmount lp otb tbb op < offerAmount op
      then roundDownToTick precision (admissibleAmount lp otb tbb op)
      else offerAmount op)"

text \<open>
  Modelled from the spec: \<open>volumeFilterFn\<close>, the body of the volume admission
  filter (section 4.2, steps 3 to 5), which is missing from the sources; the
  argument order is that of the call in \<open>TestVolumeFilterFn\<close>, without the two
  assets.  The operation is dropped when nothing is admissible; on admission the
  to-be-booked accumulator grows by the admitted amount and by its quote
  equivalent.  The result is the operation to submit, if any, and the accumulator
  as the call leaves it.
\<close>

definition volumeFilterFn ::
    "nat \<Rightarrow> VolumeAccumulator \<Rightarrow> VolumeAccumulator \<Rightarrow> ManageSellOffer \<Rightarrow> limitParameters
      \<Rightarrow> ManageSellOffer option \<times> VolumeAccumulator" where
  "volumeFilterFn precision dailyOTB dailyTBB op lp =
     (if admissibleAmount lp dailyOTB dailyTBB op \<le> 0 then (None, dailyTBB)
      else
        (let admitted = admittedAmount precision lp dailyOTB dailyTBB op
         in (Some (op\<lparr>offerAmount := admitted\<rparr>),
             dailyTBB\<lparr>baseVolume := baseVolume dailyTBB + admitted,
                      quoteVolume := quoteVolume dailyTBB + admitted * offerPrice op\<rparr>)))"

text \<open>
  Modelled from the spec: a cycle (section 5).  The operations go through the
  filter strictly one after another, against one snapshot \<open>dailyOTB\<close> and one
  accumulator.  The result lists, for every operation, what the filter returned
  and the accumulator after it.
\<close>

fun volumeFilterRun ::
    "nat \<Rightarrow> VolumeAccumulator \<Rightarrow> VolumeAccumulator \<Rightarrow> limitParameters \<Rightarrow> ManageSellOffer list
      \<Rightarrow> (ManageSellOffer option \<times> VolumeAccumulator) list" where
  "volumeFilterRun precision dailyOTB dailyTBB lp [] = []"
| "volumeFilterRun precision dailyOTB dailyTBB lp (op # ops) =
     (let r = volumeFilterFn precision dailyOTB dailyTBB op lp
      in r # volumeFilterRun precision dailyOTB (snd r) lp ops)"

text \<open>The cap on each axis that has one holds for the committed volume.\<close>

definition withinCaps :: "limitParameters \<Rightarrow> VolumeAccumulator \<Rightarrow> VolumeAccumulator \<Rightarrow> bool" where
  "withinCaps lp otb tbb =
     ((case sellBaseAssetCapInBaseUnits lp of
         None \<Rightarrow> True | Some cap \<Rightarrow> baseVolume otb + baseVolume tbb \<le> cap)
      \<and> (case sellBaseAssetCapInQuoteUnits lp of
         None \<Rightarrow> True | Some cap \<Rightarrow> quoteVolume otb + quoteVolume tbb \<le> cap))"


section \<open>Sample inputs\<close>

text \<open>
  A sell-side provider on its first run: spread 0.02, no offset spread, amount 1,
  three levels, last trade price 2, price limit 10, nothing held back.
\<close>

definition sampleProvider :: swingLevelProvider where
  "sampleProvider =
     \<lparr>spread = 2 / 100, offsetSpread = 0, amountBase = 1,
      useMaxQuoteInTargetAmountCalc = False, maxLevels = 3, lastTradePrice = 2,
      priceLimit = 10, minBase = 0,
      swingTradingPair = \<lparr>Base = ''XLM'', Quote = ''USD''\<rparr>,
      lastTradeCursor = ''0'', isFirstTradeHistoryRun = True\<rparr>"


text \<open>
  An exchange that answers the first call with one trade and fails every later
  call; its state counts the calls.
\<close>

definition failingFetcher :: "nat TradeFetcher" where
  "failingFetcher w pair cursor =
     (if w = 0 then
        (Inr [\<lparr>orderAction = OrderActionBuy, orderPrice = 3, orderTimestamp = ''1599'',
               transactionID = ''tx1''\<rparr>], Suc w)
      else (Inl (FetcherError ''timeout''), Suc w))"


section \<open>Submission mode: results\<close>

text \<open>
  Claim C10.  \<open>ParseSubmitMode\<close> answers \<open>SubmitModeMakerOnly\<close> exactly for the
  string \<open>maker_only\<close> and \<open>SubmitModeTakerOnly\<close> exactly for \<open>taker_only\<close>; every
  other string, the empty one included, gives \<open>SubmitModeBoth\<close>, and for that mode
  \<open>makeSubmitFilter\<close> returns no filter.  Hence a string other than the two
  recognised ones yields no submit filter at all.
\<close>

theorem ParseSubmitMode_exact:
  "(ParseSubmitMode s = SubmitModeMakerOnly) = (s = ''maker_only'')
   \<and> (ParseSubmitMode s = SubmitModeTakerOnly) = (s = ''taker_only'')
   \<and> (ParseSubmitMode s = SubmitModeBoth) = (s \<noteq> ''maker_only'' \<and> s \<noteq> ''taker_only'')
   \<and> makeSubmitFilter SubmitModeBoth sd pair = None
   \<and> (makeSubmitFilter (ParseSubmitMode s) sd pair = None)
       = (s \<noteq> ''maker_only'' \<and> s \<noteq> ''taker_only'')"
  by (simp add: ParseSubmitMode_def makeSubmitFilter_def)

theorem ParseSubmitMode_exact_witness:
  "ParseSubmitMode ''maker_only'' = SubmitModeMakerOnly
   \<and> ParseSubmitMode ''taker_only'' = SubmitModeTakerOnly
   \<and> ParseSubmitMode '''' = SubmitModeBoth
   \<and> ParseSubmitMode ''maker-only'' = SubmitModeBoth
   \<and> makeSubmitFilter (ParseSubmitMode ''Maker_Only'') () \<lparr>Base = ''XLM'', Quote = ''USD''\<rparr> = None"
proof -
  let ?pair = "\<lparr>Base = ''XLM'', Quote = ''USD''\<rparr>"
  show ?thesis
    using ParseSubmitMode_exact [of "''maker_only''" "()" ?pair]
          ParseSubmitMode_exact [of "''taker_only''" "()" ?pair]
          ParseSubmitMode_exact [of "''''" "()" ?pair]
          ParseSubmitMode_exact [of "''maker-only''" "()" ?pair]
          ParseSubmitMode_exact [of "''Maker_Only''" "()" ?pair]
    by simp
qed

text \<open>
  Claim C9.  The maker-only filter is to keep every operation that does not cross
  the book.  On the batch of one sell offer at price 2 for amount 1 the code
  returns the empty batch, although that offer crosses nothing: the book \<open>apply\<close>
  consults is empty and \<open>filterMakerMode\<close> returns no operation whatever it is
  given.
\<close>

theorem maker_only_drops_resting_offer:
  "sdexFilter_apply
      \<lparr>tradingPair = \<lparr>Base = ''XLM'', Quote = ''USD''\<rparr>, sdex = (), submitMode = SubmitModeMakerOnly\<rparr>
      [\<lparr>offerPrice = 2, offerAmount = 1\<rparr>] = Inr []
   \<and> \<not> sellCrossesBook emptyOrderBook \<lparr>offerPrice = 2, offerAmount = 1\<rparr>
   \<and> makeSubmitFilter SubmitModeMakerOnly () \<lparr>Base = ''XLM'', Quote = ''USD''\<rparr>
       = Some \<lparr>tradingPair = \<lparr>Base = ''XLM'', Quote = ''USD''\<rparr>, sdex = (), submitMode = SubmitModeMakerOnly\<rparr>"
  by (simp add: sdexFilter_apply_def filterMakerMode_def sellCrossesBook_def
      emptyOrderBook_def makeSubmitFilter_def)


section \<open>Volume admission filter: results\<close>

lemma roundDownToTick_le: "roundDownToTick precision x \<le> x"
proof -
  have "of_int \<lfloor>x * 10 ^ precision\<rfloor> \<le> x * 10 ^ precision"
    by (rule of_int_floor_le)
  then show ?thesis
    by (simp add: roundDownToTick_def divide_le_eq)
qed

lemma roundDownToTick_gt: "x < roundDownToTick precision x + 1 / 10 ^ precision"
proof -
  have "x * 10 ^ precision < of_int \<lfloor>x * 10 ^ precision\<rfloor> + 1"
    by linarith
  then have "x < (of_int \<lfloor>x * 10 ^ precision\<rfloor> + 1) / 10 ^ precision"
    by (simp add: pos_less_divide_eq)
  then show ?thesis
    by (simp add: roundDownToTick_def add_divide_distrib)
qed

lemma admissible_le_base:
  "sellBaseAssetCapInBaseUnits lp = Some cap \<Longrightarrow>
   admissibleAmount lp otb tbb op \<le> cap - (baseVolume otb + baseVolume tbb)"
  by (auto simp: admissibleAmount_def minWith_def availableBase_def split: option.splits)

lemma admissible_le_quote:
  "sellBaseAssetCapInQuoteUnits lp = Some cap \<Longrightarrow>
   admissibleAmount lp otb tbb op \<le> (cap - (quoteVolume otb + quoteVolume tbb)) / offerPrice op"
  by (auto simp: admissibleAmount_def minWith_def availableQuote_def split: option.splits)

lemma admissible_le_amount: "admissibleAmount lp otb tbb op \<le> offerAmount op"
  by (auto simp: admissibleAmount_def minWith_def split: option.splits)

lemma admitted_le_admissible:
  "admittedAmount precision lp otb tbb op \<le> admissibleAmount lp otb tbb op"
  using admissible_le_amount [of lp otb tbb op]
    roundDownToTick_le [of precision "admissibleAmount lp otb tbb op"]
  by (simp add: admittedAmount_def)

lemma admissible_less_admitted:
  "admissibleAmount lp otb tbb op < admittedAmount precision lp otb tbb op + 1 / 10 ^ precision"
proof (cases "admissibleAmount lp otb tbb op < offerAmount op")
  case True
  then show ?thesis
    using roundDownToTick_gt [of "admissibleAmount lp otb tbb op" precision]
    by (simp add: admittedAmount_def)
next
  case False
  with admissible_le_amount [of lp otb tbb op]
  have "admissibleAmount lp otb tbb op = offerAmount op" by simp
  then show ?thesis by (simp add: admittedAmount_def)
qed

lemma volumeFilterFn_admission:
  assumes P: "0 < offerPrice op"
    and r: "volumeFilterFn precision otb tbb op lp = (Some op', tbb')"
  shows "withinCaps lp otb tbb'"
proof -
  let ?a = "admittedAmount precision lp otb tbb op"
  let ?m = "admissibleAmount lp otb tbb op"
  from r have tbb': "tbb' = tbb\<lparr>baseVolume := baseVolume tbb + ?a,
      quoteVolume := quoteVolume tbb + ?a * offerPrice op\<rparr>"
    by (simp add: volumeFilterFn_def Let_def split: if_splits)
  have am: "?a \<le> ?m" by (rule admitted_le_admissible)
  have b: "baseVolume otb + baseVolume tbb' \<le> cap"
    if "sellBaseAssetCapInBaseUnits lp = Some cap" for cap
    using admissible_le_base [OF that, of otb tbb op] am tbb' by simp
  have q: "quoteVolume otb + quoteVolume tbb' \<le> cap"
    if "sellBaseAssetCapInQuoteUnits lp = Some cap" for cap
  proof -
    from admissible_le_quote [OF that, of otb tbb op] am
    have "?a \<le> (cap - (quoteVolume otb + quoteVolume tbb)) / offerPrice op" by simp
    with P have "?a * offerPrice op \<le> cap - (quoteVolume otb + quoteVolume tbb)"
      by (simp add: pos_le_divide_eq)
    with tbb' show ?thesis by simp
  qed
  show ?thesis
    using b q by (simp add: withinCaps_def split: option.splits)
qed

text \<open>
  The model returns what \<open>TestVolumeFilterFn\<close> expects in each of its five
  cases (the amounts of the test are texts with seven decimals).
\<close>

lemma volumeFilterFn_TestVolumeFilterFn:
  "volumeFilterFn 7 \<lparr>baseVolume = 0, quoteVolume = 0\<rparr> \<lparr>baseVolume = 0, quoteVolume = 0\<rparr>
      \<lparr>offerPrice = 2, offerAmount = 100\<rparr>
      \<lparr>sellBaseAssetCapInBaseUnits = Some 0, sellBaseAssetCapInQuoteUnits = None\<rparr>
     = (None, \<lparr>baseVolume = 0, quoteVolume = 0\<rparr>)"
  "volumeFilterFn 7 \<lparr>baseVolume = 0, quoteVolume = 0\<rparr> \<lparr>baseVolume = 0, quoteVolume = 0\<rparr>
      \<lparr>offerPrice = 2, offerAmount = 100\<rparr>
      \<lparr>sellBaseAssetCapInBaseUnits = Some 1, sellBaseAssetCapInQuoteUnits = None\<rparr>
     = (Some \<lparr>offerPrice = 2, offerAmount = 1\<rparr>, \<lparr>baseVolume = 1, quoteVolume = 2\<rparr>)"
  "volumeFilterFn 7 \<lparr>baseVolume = 0, quoteVolume = 0\<rparr> \<lparr>baseVolume = 0, quoteVolume = 0\<rparr>
      \<lparr>offerPrice = 2, offerAmount = 100\<rparr>
      \<lparr>sellBaseAssetCapInBaseUnits = None, sellBaseAssetCapInQuoteUnits = Some 0\<rparr>
     = (None, \<lparr>baseVolume = 0, quoteVolume = 0\<rparr>)"
  "volumeFilterFn 7 \<lparr>baseVolume = 0, quoteVolume = 0\<rparr> \<lparr>baseVolume = 0, quoteVolume = 0\<rparr>
      \<lparr>offerPrice = 2, offerAmount = 100\<rparr>
      \<lparr>sellBaseAssetCapInBaseUnits = None, sellBaseAssetCapInQuoteUnits = Some 1\<rparr>
     = (Some \<lparr>offerPrice = 2, offerAmount = 1 / 2\<rparr>, \<lparr>baseVolume = 1 / 2, quoteVolume = 1\<rparr>)"
  "volumeFilterFn 7 \<lparr>baseVolume = 0, quoteVolume = 0\<rparr> \<lparr>baseVolume = 0, quoteVolume = 0\<rparr>
      \<lparr>offerPrice = 2, offerAmount = 100\<rparr>
      \<lparr>sellBaseAssetCapInBaseUnits = Some 1, sellBaseAssetCapInQuoteUnits = Some 1\<rparr>
     = (Some \<lparr>offerPrice = 2, offerAmount = 1 / 2\<rparr>, \<lparr>baseVolume = 1 / 2, quoteVolume = 1\<rparr>)"
  by (simp_all add: volumeFilterFn_def admittedAmount_def admissibleAmount_def minWith_def
      availableBase_def availableQuote_def roundDownToTick_def Let_def)

text \<open>
  Claim C1, as amended.  Let \<open>m\<close> be the minimum of the requested amount \<open>A\<close>, of
  \<open>capInBaseUnits - (OTB.base + TBB.base)\<close> and of
  \<open>(capInQuoteUnits - (OTB.quote + TBB.quote)) / P\<close>, over the caps that are
  configured.  When \<open>m\<close> is positive the operation is admitted; the admitted
  amount is \<open>A\<close> when no cap binds and \<open>m\<close> rounded down to the tick otherwise, so
  it is at most \<open>m\<close> and less than a tick below it; \<open>TBB.base\<close> grows by exactly
  the admitted amount and \<open>TBB.quote\<close> by the admitted amount times \<open>P\<close>.
\<close>

theorem volumeFilterFn_admitted_amount:
  assumes "0 < admissibleAmount lp otb tbb op"
  shows "admissibleAmount lp otb tbb op =
           minWith
             (minWith (offerAmount op)
                (map_option (\<lambda>cap. cap - (baseVolume otb + baseVolume tbb))
                   (sellBaseAssetCapInBaseUnits lp)))
             (map_option (\<lambda>cap. (cap - (quoteVolume otb + quoteVolume tbb)) / offerPrice op)
                (sellBaseAssetCapInQuoteUnits lp))
       \<and> volumeFilterFn precision otb tbb op lp =
           (Some (op\<lparr>offerAmount := admittedAmount precision lp otb tbb op\<rparr>),
            tbb\<lparr>baseVolume := baseVolume tbb + admittedAmount precision lp otb tbb op,
                quoteVolume := quoteVolume tbb
                  + admittedAmount precision lp otb tbb op * offerPrice op\<rparr>)
       \<and> admittedAmount precision lp otb tbb op =
           (if admissibleAmount lp otb tbb op < offerAmount op
            then roundDownToTick precision (admissibleAmount lp otb tbb op)
            else offerAmount op)
       \<and> admittedAmount precision lp otb tbb op \<le> admissibleAmount lp otb tbb op
       \<and> admissibleAmount lp otb tbb op
           < admittedAmount precision lp otb tbb op + 1 / 10 ^ precision"
proof -
  have "map_option (\<lambda>a. a / offerPrice op) (availableQuote lp otb tbb) =
        map_option (\<lambda>cap. (cap - (quoteVolume otb + quoteVolume tbb)) / offerPrice op)
          (sellBaseAssetCapInQuoteUnits lp)"
    by (simp add: availableQuote_def option.map_comp comp_def)
  then have "admissibleAmount lp otb tbb op =
           minWith
             (minWith (offerAmount op)
                (map_option (\<lambda>cap. cap - (baseVolume otb + baseVolume tbb))
                   (sellBaseAssetCapInBaseUnits lp)))
             (map_option (\<lambda>cap. (cap - (quoteVolume otb + quoteVolume tbb)) / offerPrice op)
                (sellBaseAssetCapInQuoteUnits lp))"
    by (simp add: admissibleAmount_def availableBase_def)
  moreover from assms have "volumeFilterFn precision otb tbb op lp =
           (Some (op\<lparr>offerAmount := admittedAmount precision lp otb tbb op\<rparr>),
            tbb\<lparr>baseVolume := baseVolume tbb + admittedAmount precision lp otb tbb op,
                quoteVolume := quoteVolume tbb
                  + admittedAmount precision lp otb tbb op * offerPrice op\<rparr>)"
    by (simp add: volumeFilterFn_def Let_def)
  moreover have "admittedAmount precision lp otb tbb op =
           (if admissibleAmount lp otb tbb op < offerAmount op
            then roundDownToTick precision (admissibleAmount lp otb tbb op)
            else offerAmount op)"
    by (simp add: admittedAmount_def)
  ultimately show ?thesis
    using admitted_le_admissible [of precision lp otb tbb op]
      admissible_less_admitted [of lp otb tbb op precision]
    by blast
qed

text \<open>
  The two examples of the claim, with seven decimal places: a base cap of 1 admits
  1 of the 100 asked for at price 2 and leaves \<open>TBB = (1, 2)\<close>; a quote cap of 1
  admits 0.5 and leaves \<open>TBB = (0.5, 1)\<close>.
\<close>

theorem volumeFilterFn_admitted_amount_witness:
  "0 < admissibleAmount \<lparr>sellBaseAssetCapInBaseUnits = Some 1, sellBaseAssetCapInQuoteUnits = None\<rparr>
         \<lparr>baseVolume = 0, quoteVolume = 0\<rparr> \<lparr>baseVolume = 0, quoteVolume = 0\<rparr>
         \<lparr>offerPrice = 2, offerAmount = 100\<rparr>
   \<and> volumeFilterFn 7 \<lparr>baseVolume = 0, quoteVolume = 0\<rparr> \<lparr>baseVolume = 0, quoteVolume = 0\<rparr>
        \<lparr>offerPrice = 2, offerAmount = 100\<rparr>
        \<lparr>sellBaseAssetCapInBaseUnits = Some 1, sellBaseAssetCapInQuoteUnits = None\<rparr>
       = (Some \<lparr>offerPrice = 2, offerAmount = 1\<rparr>, \<lparr>baseVolume = 1, quoteVolume = 2\<rparr>)
   \<and> 0 < admissibleAmount \<lparr>sellBaseAssetCapInBaseUnits = None, sellBaseAssetCapInQuoteUnits = Some 1\<rparr>
         \<lparr>baseVolume = 0, quoteVolume = 0\<rparr> \<lparr>baseVolume = 0, quoteVolume = 0\<rparr>
         \<lparr>offerPrice = 2, offerAmount = 100\<rparr>
   \<and> volumeFilterFn 7 \<lparr>baseVolume = 0, quoteVolume = 0\<rparr> \<lparr>baseVolume = 0, quoteVolume = 0\<rparr>
        \<lparr>offerPrice = 2, offerAmount = 100\<rparr>
        \<lparr>sellBaseAssetCapInBaseUnits = None, sellBaseAssetCapInQuoteUnits = Some 1\<rparr>
       = (Some \<lparr>offerPrice = 2, offerAmount = 1 / 2\<rparr>, \<lparr>baseVolume = 1 / 2, quoteVolume = 1\<rparr>)"
proof -
  let ?z = "\<lparr>baseVolume = 0, quoteVolume = 0\<rparr>"
  let ?op = "\<lparr>offerPrice = 2, offerAmount = 100\<rparr>"
  let ?lpB = "\<lparr>sellBaseAssetCapInBaseUnits = Some 1, sellBaseAssetCapInQuoteUnits = None\<rparr>"
  let ?lpQ = "\<lparr>sellBaseAssetCapInBaseUnits = None, sellBaseAssetCapInQuoteUnits = Some 1\<rparr>"
  have b: "0 < admissibleAmount ?lpB ?z ?z ?op"
    by (simp add: admissibleAmount_def minWith_def availableBase_def availableQuote_def)
  have q: "0 < admissibleAmount ?lpQ ?z ?z ?op"
    by (simp add: admissibleAmount_def minWith_def availableBase_def availableQuote_def)
  have mb: "admissibleAmount ?lpB ?z ?z ?op = 1"
    by (simp add: admissibleAmount_def minWith_def availableBase_def availableQuote_def)
  have mq: "admissibleAmount ?lpQ ?z ?z ?op = 1 / 2"
    by (simp add: admissibleAmount_def minWith_def availableBase_def availableQuote_def)
  from volumeFilterFn_admitted_amount [OF b, of 7]
  have ab: "admittedAmount 7 ?lpB ?z ?z ?op = 1"
    by (simp add: mb roundDownToTick_def)
  from volumeFilterFn_admitted_amount [OF q, of 7]
  have aq: "admittedAmount 7 ?lpQ ?z ?z ?op = 1 / 2"
    by (simp add: mq roundDownToTick_def)
  from volumeFilterFn_admitted_amount [OF b, of 7]
  have rb: "volumeFilterFn 7 ?z ?z ?op ?lpB
      = (Some \<lparr>offerPrice = 2, offerAmount = 1\<rparr>, \<lparr>baseVolume = 1, quoteVolume = 2\<rparr>)"
    by (simp add: ab)
  from volumeFilterFn_admitted_amount [OF q, of 7]
  have rq: "volumeFilterFn 7 ?z ?z ?op ?lpQ
      = (Some \<lparr>offerPrice = 2, offerAmount = 1 / 2\<rparr>, \<lparr>baseVolume = 1 / 2, quoteVolume = 1\<rparr>)"
    by (simp add: aq)
  from b q rb rq show ?thesis by blast
qed

text \<open>
  The claim as it stands, "the admitted amount equals the minimum", fails where
  the minimum is not a multiple of the tick: with a quote cap of 1 and price 3
  the minimum is a third, and the operation is left with 0.3333333.
\<close>

theorem volumeFilterFn_admitted_amount_counterexample:
  "volumeFilterFn 7 \<lparr>baseVolume = 0, quoteVolume = 0\<rparr> \<lparr>baseVolume = 0, quoteVolume = 0\<rparr>
      \<lparr>offerPrice = 3, offerAmount = 100\<rparr>
      \<lparr>sellBaseAssetCapInBaseUnits = None, sellBaseAssetCapInQuoteUnits = Some 1\<rparr>
     = (Some \<lparr>offerPrice = 3, offerAmount = 3333333 / 10000000\<rparr>,
        \<lparr>baseVolume = 3333333 / 10000000, quoteVolume = 9999999 / 10000000\<rparr>)
   \<and> min (100 :: decimal) ((1 - (0 + 0)) / 3) \<noteq> 3333333 / 10000000"
  by (simp add: volumeFilterFn_def admittedAmount_def admissibleAmount_def minWith_def
      availableBase_def availableQuote_def roundDownToTick_def Let_def)

text \<open>
  Claim C2.  Whatever caps are configured and whatever the snapshot and the
  accumulator at the start of the cycle, after every admission of a run of
  operations (each with a positive price, as an offer has) the committed volume
  is within the caps: \<open>OTB.base + TBB.base \<le> capInBaseUnits\<close> when the base cap is
  set and \<open>OTB.quote + TBB.quote \<le> capInQuoteUnits\<close> when the quote cap is set.
\<close>

theorem volumeFilterRun_within_caps:
  "\<forall>op\<in>set ops. 0 < offerPrice op \<Longrightarrow>
   \<forall>r\<in>set (volumeFilterRun precision otb tbb lp ops).
      fst r \<noteq> None \<longrightarrow> withinCaps lp otb (snd r)"
proof (induction ops arbitrary: tbb)
  case Nil
  then show ?case by simp
next
  case (Cons op ops)
  obtain res tbb' where s: "volumeFilterFn precision otb tbb op lp = (res, tbb')"
    by (cases "volumeFilterFn precision otb tbb op lp")
  from Cons.prems have P: "0 < offerPrice op" and rest: "\<forall>op\<in>set ops. 0 < offerPrice op"
    by simp_all
  have hd: "res \<noteq> None \<longrightarrow> withinCaps lp otb tbb'"
    using volumeFilterFn_admission [OF P] s by auto
  from Cons.IH [OF rest, of tbb'] hd s show ?case
    by (simp add: Let_def)
qed

text \<open>
  A run of three operations under both caps: the first is cut to 0.5 by the quote
  cap, the other two are dropped; the cap holds after the admission.
\<close>

theorem volumeFilterRun_within_caps_witness:
  "0 < offerPrice \<lparr>offerPrice = 2, offerAmount = 100\<rparr>
   \<and> 0 < offerPrice \<lparr>offerPrice = 3, offerAmount = 1\<rparr>
   \<and> 0 < offerPrice \<lparr>offerPrice = 1, offerAmount = 5\<rparr>
   \<and> volumeFilterRun 7 \<lparr>baseVolume = 0, quoteVolume = 0\<rparr> \<lparr>baseVolume = 0, quoteVolume = 0\<rparr>
        \<lparr>sellBaseAssetCapInBaseUnits = Some 1, sellBaseAssetCapInQuoteUnits = Some 1\<rparr>
        [\<lparr>offerPrice = 2, offerAmount = 100\<rparr>, \<lparr>offerPrice = 3, offerAmount = 1\<rparr>,
         \<lparr>offerPrice = 1, offerAmount = 5\<rparr>]
       = [(Some \<lparr>offerPrice = 2, offerAmount = 1 / 2\<rparr>, \<lparr>baseVolume = 1 / 2, quoteVolume = 1\<rparr>),
          (None, \<lparr>baseVolume = 1 / 2, quoteVolume = 1\<rparr>),
          (None, \<lparr>baseVolume = 1 / 2, quoteVolume = 1\<rparr>)]
   \<and> withinCaps \<lparr>sellBaseAssetCapInBaseUnits = Some 1, sellBaseAssetCapInQuoteUnits = Some 1\<rparr>
        \<lparr>baseVolume = 0, quoteVolume = 0\<rparr> \<lparr>baseVolume = 1 / 2, quoteVolume = 1\<rparr>"
proof -
  let ?z = "\<lparr>baseVolume = 0, quoteVolume = 0\<rparr>"
  let ?lp = "\<lparr>sellBaseAssetCapInBaseUnits = Some 1, sellBaseAssetCapInQuoteUnits = Some 1\<rparr>"
  let ?ops = "[\<lparr>offerPrice = 2, offerAmount = 100\<rparr>, \<lparr>offerPrice = 3, offerAmount = 1\<rparr>,
               \<lparr>offerPrice = 1, offerAmount = 5\<rparr>]"
  have h: "\<forall>op\<in>set ?ops. 0 < offerPrice op" by simp
  let ?t = "\<lparr>baseVolume = 1 / 2, quoteVolume = 1\<rparr>"
  have s1: "volumeFilterFn 7 ?z ?z \<lparr>offerPrice = 2, offerAmount = 100\<rparr> ?lp
      = (Some \<lparr>offerPrice = 2, offerAmount = 1 / 2\<rparr>, ?t)"
    by (simp add: volumeFilterFn_def admittedAmount_def admissibleAmount_def minWith_def
        availableBase_def availableQuote_def roundDownToTick_def Let_def)
  have s2: "volumeFilterFn 7 ?z ?t \<lparr>offerPrice = 3, offerAmount = 1\<rparr> ?lp = (None, ?t)"
    by (simp add: volumeFilterFn_def admissibleAmount_def minWith_def
        availableBase_def availableQuote_def)
  have s3: "volumeFilterFn 7 ?z ?t \<lparr>offerPrice = 1, offerAmount = 5\<rparr> ?lp = (None, ?t)"
    by (simp add: volumeFilterFn_def admissibleAmount_def minWith_def
        availableBase_def availableQuote_def)
  have run: "volumeFilterRun 7 ?z ?z ?lp ?ops
       = [(Some \<lparr>offerPrice = 2, offerAmount = 1 / 2\<rparr>, ?t), (None, ?t), (None, ?t)]"
    by (simp add: s1 s2 s3 Let_def)
  from volumeFilterRun_within_caps [OF h, of 7 ?z ?z ?lp] run
  have "withinCaps ?lp ?z \<lparr>baseVolume = 1 / 2, quoteVolume = 1\<rparr>" by simp
  with run show ?thesis by simp
qed

text \<open>
  Claim C3.  A cap of exactly zero on an axis drops the operation and leaves the
  accumulator as it was: for the base cap at any price, for the quote cap at any
  positive price (an offer's price is positive).  The volumes already committed
  on that axis are not negative, as sums of traded amounts are.
\<close>

theorem volumeFilterFn_zero_cap:
  "(sellBaseAssetCapInBaseUnits lp = Some 0 \<and> 0 \<le> baseVolume otb + baseVolume tbb)
   \<or> (sellBaseAssetCapInQuoteUnits lp = Some 0 \<and> 0 \<le> quoteVolume otb + quoteVolume tbb
        \<and> 0 < offerPrice op)
   \<Longrightarrow> volumeFilterFn precision otb tbb op lp = (None, tbb)"
proof (erule disjE)
  assume "sellBaseAssetCapInBaseUnits lp = Some 0 \<and> 0 \<le> baseVolume otb + baseVolume tbb"
  with admissible_le_base [of lp 0 otb tbb op]
  have "admissibleAmount lp otb tbb op \<le> 0" by simp
  then show ?thesis by (simp add: volumeFilterFn_def)
next
  assume a: "sellBaseAssetCapInQuoteUnits lp = Some 0 \<and> 0 \<le> quoteVolume otb + quoteVolume tbb
        \<and> 0 < offerPrice op"
  then have "(0 - (quoteVolume otb + quoteVolume tbb)) / offerPrice op \<le> 0"
    by (simp add: divide_le_0_iff)
  with a admissible_le_quote [of lp 0 otb tbb op]
  have "admissibleAmount lp otb tbb op \<le> 0" by simp
  then show ?thesis by (simp add: volumeFilterFn_def)
qed

text \<open>The two zero-cap cases of \<open>TestVolumeFilterFn\<close>.\<close>

theorem volumeFilterFn_zero_cap_witness:
  "volumeFilterFn 7 \<lparr>baseVolume = 0, quoteVolume = 0\<rparr> \<lparr>baseVolume = 0, quoteVolume = 0\<rparr>
      \<lparr>offerPrice = 2, offerAmount = 100\<rparr>
      \<lparr>sellBaseAssetCapInBaseUnits = Some 0, sellBaseAssetCapInQuoteUnits = None\<rparr>
     = (None, \<lparr>baseVolume = 0, quoteVolume = 0\<rparr>)
   \<and> volumeFilterFn 7 \<lparr>baseVolume = 0, quoteVolume = 0\<rparr> \<lparr>baseVolume = 0, quoteVolume = 0\<rparr>
      \<lparr>offerPrice = 2, offerAmount = 100\<rparr>
      \<lparr>sellBaseAssetCapInBaseUnits = None, sellBaseAssetCapInQuoteUnits = Some 0\<rparr>
     = (None, \<lparr>baseVolume = 0, quoteVolume = 0\<rparr>)"
  using volumeFilterFn_zero_cap [of
      "\<lparr>sellBaseAssetCapInBaseUnits = Some 0, sellBaseAssetCapInQuoteUnits = None\<rparr>"
      "\<lparr>baseVolume = 0, quoteVolume = 0\<rparr>" "\<lparr>baseVolume = 0, quoteVolume = 0\<rparr>"
      "\<lparr>offerPrice = 2, offerAmount = 100\<rparr>" 7]
    volumeFilterFn_zero_cap [of
      "\<lparr>sellBaseAssetCapInBaseUnits = None, sellBaseAssetCapInQuoteUnits = Some 0\<rparr>"
      "\<lparr>baseVolume = 0, quoteVolume = 0\<rparr>" "\<lparr>baseVolume = 0, quoteVolume = 0\<rparr>"
      "\<lparr>offerPrice = 2, offerAmount = 100\<rparr>" 7]
  by simp


section \<open>Swing level provider: results\<close>

subsection \<open>The fetch loop\<close>

lemma fetchLoop_failure:
  "fetchLoop fuel hack fetcher pair w lastPrice lastCursor lastIsBuy = (r, w', calls)
   \<Longrightarrow> (cur, Inl e) \<in> set calls \<Longrightarrow> r = Some (Inl (ErrorInGetTradeHistory e))"
proof (induction fuel arbitrary: w lastPrice lastCursor lastIsBuy r w' calls)
  case 0
  then show ?case by simp
next
  case (Suc fuel)
  obtain resp w1 where f: "fetcher w pair lastCursor = (resp, w1)"
    by (cases "fetcher w pair lastCursor")
  show ?case
  proof (cases resp)
    case (Inl e')
    with Suc.prems f show ?thesis by auto
  next
    case (Inr trades)
    show ?thesis
    proof (cases "trades = []")
      case True
      with Suc.prems f Inr show ?thesis by auto
    next
      case False
      show ?thesis
      proof (cases "nextCursor hack (last trades)")
        case (Inl e')
        with Suc.prems f Inr False show ?thesis by (auto simp: Let_def)
      next
        case c: (Inr c)
        from Suc.prems(1) f Inr False c obtain calls1 where
          rec: "fetchLoop fuel hack fetcher pair w1 (orderPrice (last trades)) c
                  (orderAction (last trades) = OrderActionBuy) = (r, w', calls1)"
          and calls: "calls = (lastCursor, Inr trades) # calls1"
          by (auto simp: Let_def split: prod.splits)
        from Suc.prems(2) calls have "(cur, Inl e) \<in> set calls1" by auto
        with Suc.IH [OF rec] show ?thesis by blast
      qed
    qed
  qed
qed

text \<open>
  Claim C4.  When \<open>maxAssetBase \<le> minBase\<close>, \<open>GetLevels\<close> returns the empty
  sequence of levels and no error, makes no call to the trade fetcher (the list of
  calls is empty and the exchange is as it was), and leaves the provider, with its
  \<open>lastTradePrice\<close>, \<open>lastTradeCursor\<close> and \<open>isFirstTradeHistoryRun\<close>, and the
  price map unchanged.
\<close>

theorem GetLevels_below_minBase:
  "maxAssetBase \<le> minBase p \<Longrightarrow>
   GetLevels q hack fetcher fuel p m w maxAssetBase maxAssetQuote
     = (Some (Inr []), p, m, w, [])"
  by (simp add: GetLevels_def)

theorem GetLevels_below_minBase_witness:
  "(5 :: float64) \<le> minBase (sampleProvider\<lparr>minBase := 5\<rparr>)
   \<and> GetLevels (toFixed 7) False failingFetcher 0 (sampleProvider\<lparr>minBase := 5\<rparr>) [(1, 1)] 0 5 0
       = (Some (Inr []), sampleProvider\<lparr>minBase := 5\<rparr>, [(1, 1)], 0, [])"
proof -
  have h: "(5 :: float64) \<le> minBase (sampleProvider\<lparr>minBase := 5\<rparr>)" by simp
  from h GetLevels_below_minBase [OF h, of "toFixed 7" False failingFetcher 0 "[(1, 1)]" 0 0]
  show ?thesis by blast
qed

text \<open>
  Claim C5.  If any call to the trade fetcher made during \<open>GetLevels\<close> fails,
  on the first page or on a later one, then \<open>GetLevels\<close> has returned, with an
  error (that of the failed call, wrapped) and no levels, and the provider, with
  its \<open>lastTradePrice\<close>, \<open>lastTradeCursor\<close> and \<open>isFirstTradeHistoryRun\<close>, and the
  price map are exactly as before the call.
\<close>

theorem GetLevels_fetch_failure:
  assumes g: "GetLevels q hack fetcher fuel p m w maxAssetBase maxAssetQuote
                = (res, p', m', w', calls)"
    and c: "(cur, Inl e) \<in> set calls"
  shows "res = Some (Inl (ErrorInFetchLatestTradePrice (ErrorInGetTradeHistory e)))
       \<and> p' = p \<and> m' = m"
proof -
  from g c have big: "\<not> maxAssetBase \<le> minBase p"
    by (auto simp: GetLevels_def)
  obtain r w1 calls1 where f: "fetchLatestTradePrice fuel hack fetcher p w = (r, w1, calls1)"
    by (cases "fetchLatestTradePrice fuel hack fetcher p w")
  from g big f have calls: "calls1 = calls"
    by (auto simp: GetLevels_def Let_def split: option.splits sum.splits prod.splits)
  from f calls c have "r = Some (Inl (ErrorInGetTradeHistory e))"
    unfolding fetchLatestTradePrice_def by (auto dest: fetchLoop_failure)
  with g big f show ?thesis
    by (simp add: GetLevels_def)
qed

text \<open>The second page fails: the first call returned a trade, the next one an error.\<close>

theorem GetLevels_fetch_failure_witness:
  "GetLevels (toFixed 7) False failingFetcher 2 sampleProvider [(1, 1)] 0 100 0
     = (Some (Inl (ErrorInFetchLatestTradePrice (ErrorInGetTradeHistory (FetcherError ''timeout'')))),
        sampleProvider, [(1, 1)], 2,
        [(''0'', Inr [\<lparr>orderAction = OrderActionBuy, orderPrice = 3, orderTimestamp = ''1599'',
                        transactionID = ''tx1''\<rparr>]),
         (''tx1'', Inl (FetcherError ''timeout''))])"
proof -
  let ?calls = "[(''0'', Inr [\<lparr>orderAction = OrderActionBuy, orderPrice = 3,
                        orderTimestamp = ''1599'', transactionID = ''tx1''\<rparr>]),
                 (''tx1'', Inl (FetcherError ''timeout''))]"
  obtain res p' m' w' calls where
    g: "GetLevels (toFixed 7) False failingFetcher 2 sampleProvider [(1, 1)] 0 100 0
          = (res, p', m', w', calls)"
    by (cases "GetLevels (toFixed 7) False failingFetcher 2 sampleProvider [(1, 1)] 0 100 0")
  have "fetchLatestTradePrice 2 False failingFetcher sampleProvider 0
          = (Some (Inl (ErrorInGetTradeHistory (FetcherError ''timeout''))), 2, ?calls)"
    by (simp add: fetchLatestTradePrice_def failingFetcher_def sampleProvider_def
        nextCursor_def numeral_2_eq_2)
  with g have w: "w' = 2" and cs: "calls = ?calls"
    by (simp_all add: GetLevels_def sampleProvider_def)
  from cs have "(''tx1'', Inl (FetcherError ''timeout'')) \<in> set calls" by simp
  from GetLevels_fetch_failure [OF g this] g w cs show ?thesis by simp
qed

subsection \<open>The level loop\<close>

















subsection \<open>Reconciliation\<close>


text \<open>
  Claim C7.  Without an exact match, the reconciliation is to resolve to the value
  of the nearest key on the side the trade direction names (above the trade price
  for a buy, below it for a sell) and to the sentinel \<open>-1\<close> when there is no such
  key.  The code takes the first entry the loop visits whatever its side
  (\<open>firstIter\<close>), and a first entry on the wrong side is never replaced.  With the
  keys 2.02 and 2.0402 in the map and a buy: at trade price 3 no key is above the
  trade price, yet the result is 2.02 and not \<open>-1\<close>; at trade price 2.03 the
  nearest key above is 2.0402, yet the result is 2.02 when the loop visits 2.02
  first, and 2.0402 when it visits 2.0402 first.
\<close>

theorem getLastPriceFromMap_first_entry_wins:
  "getLastPriceFromMap [(202 / 100, 202 / 100), (20402 / 10000, 20402 / 10000)] 3 True
     = 202 / 100
   \<and> getLastPriceFromMap [(202 / 100, 202 / 100), (20402 / 10000, 20402 / 10000)] (203 / 100) True
     = 202 / 100
   \<and> getLastPriceFromMap [(20402 / 10000, 20402 / 10000), (202 / 100, 202 / 100)] (203 / 100) True
     = 20402 / 10000"
  by (simp add: getLastPriceFromMap_def closestStep_def Let_def)




end
